theory Spec2Isabelle
  imports Complex_Main
begin

section \<open>Data model\<close>

text \<open>
  The series (\<open>df\<close> in \<open>app.py\<close>) is the table that the data provider returns: one row per
  timestamp with the numeric fields Open, High, Low, Close and Volume, in the provider's
  order. \<open>add_indicators\<close> assigns two more columns, \<open>SMA20\<close> and \<open>EMA20\<close>; a column that
  has not been assigned is absent (\<open>None\<close>), which is what \<open>'SMA20' in df.columns\<close> tests.

  Prices are numbers: the model computes with exact reals where the program computes with
  64-bit floats, so rounding is not modelled, and a row with a missing price is not
  represented. A cell of an indicator column is \<open>None\<close> where pandas stores NaN (a
  missing value). Columns of the provider that the script never reads are left out.
\<close>

record row =
  ts :: int
  Open :: real
  High :: real
  Low :: real
  Close :: real
  Volume :: real

type_synonym column = "real option list"

record dataframe =
  rows :: "row list"
  SMA20 :: "column option"
  EMA20 :: "column option"

definition close_column :: "dataframe \<Rightarrow> real list" where
  \<comment> \<open>\<open>df['Close']\<close>\<close>
  "close_column df = map Close (rows df)"

section \<open>Indicator computation\<close>

text \<open>
  \<open>Series.rolling(window=w, min_periods=m).mean()\<close>: the window of row \<open>i\<close> holds the rows
  \<open>i - w + 1 .. i\<close> that exist (fewer than \<open>w\<close> of them near the start of the series); the
  result is the mean of the window when it holds at least \<open>m\<close> values and missing otherwise.
  \<open>min_periods\<close> defaults to the window size.
\<close>

definition rolling_window :: "nat \<Rightarrow> real list \<Rightarrow> nat \<Rightarrow> real list" where
  "rolling_window w xs i = drop (Suc i - w) (take (Suc i) xs)"

definition rolling_mean :: "nat \<Rightarrow> nat option \<Rightarrow> real list \<Rightarrow> column" where
  "rolling_mean w min_periods xs =
     (let m = (case min_periods of None \<Rightarrow> w | Some k \<Rightarrow> k)
      in map (\<lambda>i. let win = rolling_window w xs i
                  in if m \<le> length win \<and> 0 < length win
                     then Some (sum_list win / real (length win))
                     else None)
             [0..<length xs])"

text \<open>
  \<open>Series.ewm(span=s, adjust=False).mean()\<close>: with \<open>\<alpha> = 2 / (s + 1)\<close> the first value is
  the first observation and every later value is \<open>(1 - \<alpha>) * previous + \<alpha> * observation\<close>.
  Every row has a value (\<open>min_periods\<close> defaults to 0).
\<close>

fun ewm_from :: "real \<Rightarrow> real \<Rightarrow> real list \<Rightarrow> real list" where
  "ewm_from \<alpha> prev [] = []"
| "ewm_from \<alpha> prev (x # xs) =
     (let y = (1 - \<alpha>) * prev + \<alpha> * x in y # ewm_from \<alpha> y xs)"

definition ewm_mean :: "nat \<Rightarrow> real list \<Rightarrow> column" where
  "ewm_mean s xs =
     (case xs of
        [] \<Rightarrow> []
      | x # rest \<Rightarrow> map Some (x # ewm_from (2 / (real s + 1)) x rest))"

text \<open>
  \<open>add_indicators\<close> assigns both columns on the frame it is given and returns that same
  frame: the result of the model is the state of the argument after the call.
\<close>

definition add_indicators :: "dataframe \<Rightarrow> dataframe" where
  "add_indicators df =
     (let df1 = df\<lparr>SMA20 := Some (rolling_mean 20 None (close_column df))\<rparr>;
          df2 = df1\<lparr>EMA20 := Some (ewm_mean 20 (close_column df1))\<rparr>
      in df2)"

section \<open>Errors, indexing and float division\<close>

text \<open>
  The exceptions the script can meet: \<open>IndexError\<close> from positional indexing, and whatever
  the data provider raises (network failure, rate limit, malformed symbol), kept with its
  message.
\<close>

datatype py_error = IndexError | ProviderError string

definition iloc :: "'a list \<Rightarrow> int \<Rightarrow> py_error + 'a" where
  \<comment> \<open>\<open>series.iloc[i]\<close>: position \<open>- k\<close> is the \<open>k\<close>-th cell from the end; a position
      outside the series raises.\<close>
  "iloc xs i =
     (if 0 \<le> i \<and> i < int (length xs) then Inr (xs ! nat i)
      else if i < 0 \<and> - int (length xs) \<le> i then Inr (xs ! (length xs - nat (- i)))
      else Inl IndexError)"

text \<open>
  The cells of the Close column are numpy 64-bit floats, and so are \<open>latest_close\<close>,
  \<open>prev_close\<close> and \<open>change\<close>. Dividing such a value by zero raises nothing: numpy follows
  IEEE 754, issues a warning and returns an infinity, or NaN for \<open>0 / 0\<close>. The result type
  of the division therefore has the three special values next to the finite ones.
\<close>

datatype float64 = Finite real | PosInf | NegInf | NaN

definition float_div :: "real \<Rightarrow> real \<Rightarrow> float64" where
  "float_div a b =
     (if b \<noteq> 0 then Finite (a / b)
      else if a = 0 then NaN
      else if 0 < a then PosInf else NegInf)"

fun float_mul :: "float64 \<Rightarrow> real \<Rightarrow> float64" where
  "float_mul (Finite a) b = Finite (a * b)"
| "float_mul PosInf b = (if 0 < b then PosInf else if b < 0 then NegInf else NaN)"
| "float_mul NegInf b = (if 0 < b then NegInf else if b < 0 then PosInf else NaN)"
| "float_mul NaN b = NaN"

fun is_finite :: "float64 \<Rightarrow> bool" where
  "is_finite (Finite a) = True"
| "is_finite _ = False"

section \<open>Chart\<close>

datatype trace =
    Candlestick "int list" "real list" "real list" "real list" "real list" string
      \<comment> \<open>x, open, high, low, close, name\<close>
  | Scatter "int list" column string real string
      \<comment> \<open>x, y, line colour, line width, name\<close>

record figure =
  traces :: "trace list"
  title :: string
  xaxis_rangeslider_visible :: bool
  template :: string
  height :: nat

definition plot_candlestick :: "dataframe \<Rightarrow> string \<Rightarrow> figure" where
  "plot_candlestick df ticker =
     (let x = map ts (rows df);
          fig0 = [Candlestick x (map Open (rows df)) (map High (rows df))
                    (map Low (rows df)) (map Close (rows df)) ''Price''];
          fig1 = (case SMA20 df of
                    Some y \<Rightarrow> fig0 @ [Scatter x y ''orange'' (3 / 2) ''SMA 20'']
                  | None \<Rightarrow> fig0);
          fig2 = (case EMA20 df of
                    Some y \<Rightarrow> fig1 @ [Scatter x y ''blue'' (3 / 2) ''EMA 20'']
                  | None \<Rightarrow> fig1)
      in \<lparr>traces = fig2,
          title = ticker @ '' - Real-Time Candlestick Chart'',
          xaxis_rangeslider_visible = False,
          template = ''plotly_dark'',
          height = 600\<rparr>)"

section \<open>Effects of a run\<close>

text \<open>
  One run of the script is one refresh cycle. Its effects are the page elements it emits,
  the request to the provider, the one-second sleeps of the countdown and the request for
  a rerun, in the order the script performs them. Metric tiles carry the numbers that the
  source formats to two decimals; the pictographs in the page title and the subheader are
  left out of the texts. \<open>st.experimental_rerun()\<close> hands control back to the framework,
  which starts the next run; the handler for \<open>Exception\<close> does not intercept it.
\<close>

datatype event =
    SetPageConfig string string
  | Title string
  | Fetch string string string
  | Warning string
  | Metric string real "(real \<times> float64) option"
      \<comment> \<open>label, value, delta (change and percent change)\<close>
  | PlotlyChart figure
  | Subheader string
  | Dataframe dataframe
  | Markdown int
      \<comment> \<open>the countdown text \<open>Refreshing in i seconds...\<close>\<close>
  | Sleep nat
  | Rerun
  | Error py_error

section \<open>Data acquisition\<close>

text \<open>
  \<open>yf.Ticker(ticker).history(period=..., interval=...)\<close> is the external provider: a
  parameter of the model, which returns a series or raises. \<open>get_stock_data\<close> makes that
  one call; the request is recorded as an event next to its outcome, since the network
  call is the function's only effect. \<open>period\<close> and \<open>interval\<close> are optional arguments with
  the defaults of the source.
\<close>

type_synonym provider = "string \<Rightarrow> string \<Rightarrow> string \<Rightarrow> py_error + dataframe"

definition get_stock_data ::
  "provider \<Rightarrow> string \<Rightarrow> string option \<Rightarrow> string option \<Rightarrow> event \<times> (py_error + dataframe)" where
  "get_stock_data yf ticker period interval =
     (let p = (case period of None \<Rightarrow> ''1d'' | Some v \<Rightarrow> v);
          i = (case interval of None \<Rightarrow> ''1m'' | Some v \<Rightarrow> v)
      in (Fetch ticker p i, yf ticker p i))"

section \<open>The script\<close>

definition df_empty :: "dataframe \<Rightarrow> bool" where
  \<comment> \<open>\<open>df.empty\<close>\<close>
  "df_empty df = (rows df = [])"

definition lastn :: "nat \<Rightarrow> 'a list \<Rightarrow> 'a list" where
  "lastn n xs = drop (length xs - n) xs"

definition tail :: "dataframe \<Rightarrow> nat \<Rightarrow> dataframe" where
  \<comment> \<open>\<open>df.tail(n)\<close>; the script uses the default \<open>n = 5\<close>.\<close>
  "tail df n =
     \<lparr>rows = lastn n (rows df),
      SMA20 = map_option (lastn n) (SMA20 df),
      EMA20 = map_option (lastn n) (EMA20 df)\<rparr>"

function countdown :: "int \<Rightarrow> event list" where
  \<comment> \<open>\<open>for i in range(refresh_rate, 0, -1)\<close>: show the text, sleep one second.\<close>
  "countdown i = (if 0 < i then Markdown i # Sleep 1 # countdown (i - 1) else [])"
  by pat_completeness auto
termination
  by (relation "measure nat") auto

declare countdown.simps [simp del]

text \<open>
  The script reads two inputs, the text of the ticker field and the refresh rate of the
  slider, and upper-cases the text with \<open>str.upper()\<close>. That method is Python's
  upper-casing of Unicode text; like the provider it is a parameter of the model
  (\<open>str_upper\<close>), so nothing is assumed about what it does to a text.

  The result of a run: the events, and the value of the variable \<open>df\<close> when the script
  ends (\<open>None\<close> when the fetch raised before assigning it). An exception inside the
  \<open>try\<close> block ends the block; what was emitted before it stays on the page and the
  handler adds the error banner.
\<close>

record run =
  events :: "event list"
  frame :: "dataframe option"

definition app :: "(string \<Rightarrow> string) \<Rightarrow> provider \<Rightarrow> string \<Rightarrow> int \<Rightarrow> run" where
  "app str_upper yf text_input refresh_rate =
     (let page = [SetPageConfig ''Stock Dashboard'' ''wide'',
                  Title ''Real-Time Stock Market Dashboard''];
          ticker = str_upper text_input;
          (call, result) = get_stock_data yf ticker None None
      in case result of
           Inl e \<Rightarrow> \<lparr>events = page @ [call, Error e], frame = None\<rparr>
         | Inr df0 \<Rightarrow>
            (if df_empty df0 then
               \<lparr>events = page @ [call,
                  Warning ''No data available. Try a different ticker or interval.''],
                frame = Some df0\<rparr>
             else
               (let df = add_indicators df0 in
                case iloc (close_column df) (- 1) of
                  Inl e \<Rightarrow> \<lparr>events = page @ [call, Error e], frame = Some df\<rparr>
                | Inr latest_close \<Rightarrow>
                   (case iloc (close_column df) (- 2) of
                      Inl e \<Rightarrow> \<lparr>events = page @ [call, Error e], frame = Some df\<rparr>
                    | Inr prev_close \<Rightarrow>
                       (let change = latest_close - prev_close;
                            pct_change = float_mul (float_div change prev_close) 100;
                            m1 = Metric ''Latest Price'' latest_close
                                   (Some (change, pct_change))
                        in case iloc (map High (rows df)) (- 1) of
                             Inl e \<Rightarrow>
                               \<lparr>events = page @ [call, m1, Error e], frame = Some df\<rparr>
                           | Inr high \<Rightarrow>
                              (case iloc (map Low (rows df)) (- 1) of
                                 Inl e \<Rightarrow>
                                   \<lparr>events = page @
                                      [call, m1, Metric ''Day High'' high None, Error e],
                                    frame = Some df\<rparr>
                               | Inr low \<Rightarrow>
                                   \<lparr>events = page @
                                      [call, m1, Metric ''Day High'' high None,
                                       Metric ''Day Low'' low None,
                                       PlotlyChart (plot_candlestick df ticker),
                                       Subheader ''Latest Data'',
                                       Dataframe (tail df 5)] @
                                      countdown refresh_rate @ [Rerun],
                                    frame = Some df\<rparr>))))))"

section \<open>Sample inputs\<close>

definition mk_row :: "int \<Rightarrow> real \<Rightarrow> real \<Rightarrow> real \<Rightarrow> real \<Rightarrow> row" where
  "mk_row t opn hi lo cl = \<lparr>ts = t, Open = opn, High = hi, Low = lo, Close = cl, Volume = 1000\<rparr>"

definition fetched :: "row list \<Rightarrow> dataframe" where
  \<comment> \<open>a series as the provider returns it: no indicator columns yet\<close>
  "fetched rs = \<lparr>rows = rs, SMA20 = None, EMA20 = None\<rparr>"

definition two_rows :: dataframe where
  "two_rows = fetched [mk_row 0 100 105 99 102, mk_row 1 102 103 100 101]"

definition one_row :: dataframe where
  "one_row = fetched [mk_row 0 100 105 99 102]"

definition zero_prev :: dataframe where
  "zero_prev = fetched [mk_row 0 0 0 0 0, mk_row 1 0 5 0 5]"

definition twenty_rows :: dataframe where
  "twenty_rows = fetched (map (\<lambda>n. mk_row (int n) (real n) (real n) (real n) (real n)) [1..<21])"

definition serve :: "py_error + dataframe \<Rightarrow> provider" where
  \<comment> \<open>a provider that answers every request the same way\<close>
  "serve r = (\<lambda>ticker period interval. r)"

definition ascii_upper_char :: "char \<Rightarrow> char" where
  "ascii_upper_char c =
     (let n = (of_char c :: nat)
      in if 97 \<le> n \<and> n \<le> 122 then char_of (n - 32) else c)"

definition ascii_upper :: "string \<Rightarrow> string" where
  \<comment> \<open>an upper-casing for the sample runs, whose tickers are ASCII text: the letters
      \<open>a\<close> to \<open>z\<close> become \<open>A\<close> to \<open>Z\<close>\<close>
  "ascii_upper s = map ascii_upper_char s"

definition two_rows_alt :: dataframe where
  \<comment> \<open>the Close values of \<open>two_rows\<close> under other timestamps and prices\<close>
  "two_rows_alt = fetched [mk_row 7 1 2 3 102, mk_row 9 4 5 6 101]"

definition sample_yf :: provider where
  \<comment> \<open>a provider with no data for the empty symbol and an error for unknown ones\<close>
  "sample_yf ticker period interval =
     (if ticker = '''' then Inr (fetched [])
      else if ticker = ''AAPL'' then Inr two_rows
      else Inl (ProviderError ''No data found, symbol may be delisted''))"

section \<open>Observations on a run\<close>

fun is_fetch :: "event \<Rightarrow> bool" where
  "is_fetch (Fetch ticker period interval) = True"
| "is_fetch _ = False"

fun is_error :: "event \<Rightarrow> bool" where
  "is_error (Error e) = True"
| "is_error _ = False"

fun is_rendering :: "event \<Rightarrow> bool" where
  \<comment> \<open>a metric tile, the chart or the tail-rows table\<close>
  "is_rendering (Metric label v delta) = True"
| "is_rendering (PlotlyChart fig) = True"
| "is_rendering (Dataframe df) = True"
| "is_rendering _ = False"

fun seconds :: "event \<Rightarrow> nat" where
  "seconds (Sleep n) = n"
| "seconds _ = 0"

definition delay :: "run \<Rightarrow> nat" where
  \<comment> \<open>the seconds the run spends in the countdown\<close>
  "delay r = sum_list (map seconds (events r))"

definition reruns :: "run \<Rightarrow> bool" where
  \<comment> \<open>the run asks for the next cycle\<close>
  "reruns r = (Rerun \<in> set (events r))"

text \<open>
  The trace count as the specification words it: the candlestick, plus one overlay for
  each indicator column that is present and not entirely undefined.
\<close>

definition entirely_undefined :: "column \<Rightarrow> bool" where
  "entirely_undefined c = list_all (\<lambda>v. v = None) c"

definition spec_overlay :: "column option \<Rightarrow> nat" where
  "spec_overlay c =
     (case c of None \<Rightarrow> 0 | Some y \<Rightarrow> if entirely_undefined y then 0 else 1)"

definition spec_trace_count :: "dataframe \<Rightarrow> nat" where
  "spec_trace_count df = 1 + spec_overlay (SMA20 df) + spec_overlay (EMA20 df)"

section \<open>Indicator computation: properties\<close>

lemma length_rolling_window:
  "i < length xs \<Longrightarrow> length (rolling_window w xs i) = min w (Suc i)"
  by (auto simp: rolling_window_def)

lemma rolling_window_nths:
  assumes "i < length xs"
  shows "rolling_window w xs i = map ((!) xs) [Suc i - w..<Suc i]"
proof -
  have "take (Suc i) xs = take (Suc i) (map ((!) xs) [0..<length xs])"
    by (simp only: map_nth)
  also have "\<dots> = map ((!) xs) [0..<Suc i]"
    using assms by (simp only: take_map take_upt) simp
  finally show ?thesis
    unfolding rolling_window_def by (simp only: drop_map drop_upt) simp
qed

lemma sum_list_rolling_window:
  assumes "i < length xs"
  shows "sum_list (rolling_window w xs i) = (\<Sum>k = Suc i - w..i. xs ! k)"
proof -
  have "sum_list (rolling_window w xs i) = (\<Sum>k\<leftarrow>[Suc i - w..<Suc i]. xs ! k)"
    by (simp only: rolling_window_nths [OF assms])
  also have "\<dots> = (\<Sum>k = Suc i - w..<Suc i. xs ! k)"
    by (simp only: interv_sum_list_conv_sum_set_nat set_upt)
  finally show ?thesis
    by (simp only: atLeastLessThanSuc_atLeastAtMost)
qed

lemma length_rolling_mean: "length (rolling_mean w m xs) = length xs"
  by (simp add: rolling_mean_def Let_def)

lemma rolling_mean_nth:
  assumes "i < length xs"
  shows "rolling_mean 20 None xs ! i =
           (if 19 \<le> i then Some ((\<Sum>k = i - 19..i. xs ! k) / 20) else None)"
proof -
  have len: "length (rolling_window 20 xs i) = min 20 (Suc i)"
    by (rule length_rolling_window [OF assms])
  show ?thesis
  proof (cases "19 \<le> i")
    case True
    then have l20: "length (rolling_window 20 xs i) = 20" using len by simp
    then have "rolling_window 20 xs i \<noteq> []" by auto
    moreover note l20
    moreover have "Suc i - 20 = i - 19" using True by simp
    ultimately show ?thesis
      using assms True
      by (simp add: rolling_mean_def Let_def sum_list_rolling_window)
  next
    case False
    then have "length (rolling_window 20 xs i) < 20" using len by simp
    then show ?thesis
      using assms False by (simp add: rolling_mean_def Let_def)
  qed
qed

lemma length_ewm_from: "length (ewm_from a p xs) = length xs"
  by (induction xs arbitrary: p) (simp_all add: Let_def)

lemma ewm_from_step:
  "i < length xs \<Longrightarrow>
     (p # ewm_from a p xs) ! Suc i = (1 - a) * (p # ewm_from a p xs) ! i + a * xs ! i"
proof (induction xs arbitrary: p i)
  case Nil
  then show ?case by simp
next
  case (Cons x xs)
  show ?case
  proof (cases i)
    case 0
    then show ?thesis by (simp add: Let_def)
  next
    case (Suc j)
    with Cons.prems have "j < length xs" by simp
    from Cons.IH [OF this] show ?thesis
      using Suc by (simp add: Let_def)
  qed
qed

lemma rows_add_indicators: "rows (add_indicators df) = rows df"
  by (simp add: add_indicators_def Let_def)

lemma SMA20_add_indicators:
  "SMA20 (add_indicators df) = Some (rolling_mean 20 None (close_column df))"
  by (simp add: add_indicators_def Let_def)

lemma EMA20_add_indicators:
  "EMA20 (add_indicators df) = Some (ewm_mean 20 (close_column df))"
  by (simp add: add_indicators_def Let_def close_column_def)

lemma length_close_column: "length (close_column df) = length (rows df)"
  by (simp add: close_column_def)

lemma close_column_nth: "i < length (rows df) \<Longrightarrow> close_column df ! i = Close (rows df ! i)"
  by (simp add: close_column_def)

lemma close_column_add_indicators: "close_column (add_indicators df) = close_column df"
  by (simp add: close_column_def rows_add_indicators)

text \<open>
  Claim C1. After the indicator computation the SMA20 column has one cell per row; the
  cell of row \<open>i\<close> is the arithmetic mean of Close over the rows \<open>i - 19 .. i\<close> when
  \<open>i \<ge> 19\<close> and is missing when \<open>i < 19\<close>. A series of fewer than 20 rows gets a column
  of missing values; the computation is total, so it cannot fail on a short series.
\<close>

theorem add_indicators_SMA20:
  "\<exists>col. SMA20 (add_indicators df) = Some col \<and> length col = length (rows df) \<and>
     (\<forall>i < length (rows df).
        col ! i = (if 19 \<le> i then Some ((\<Sum>k = i - 19..i. Close (rows df ! k)) / 20)
                   else None)) \<and>
     (length (rows df) < 20 \<longrightarrow> col = replicate (length (rows df)) None)"
proof -
  let ?col = "rolling_mean 20 None (close_column df)"
  have len: "length ?col = length (rows df)"
    by (simp add: length_rolling_mean length_close_column)
  have nth: "?col ! i = (if 19 \<le> i then Some ((\<Sum>k = i - 19..i. Close (rows df ! k)) / 20)
                         else None)"
    if "i < length (rows df)" for i
  proof -
    have "(\<Sum>k = i - 19..i. close_column df ! k) = (\<Sum>k = i - 19..i. Close (rows df ! k))"
      using that by (intro sum.cong) (auto simp: close_column_nth)
    then show ?thesis
      using that rolling_mean_nth [of i "close_column df"]
      by (simp add: length_close_column)
  qed
  have short: "?col = replicate (length (rows df)) None" if "length (rows df) < 20"
    using that len nth by (intro nth_equalityI) auto
  show ?thesis
    using len nth short by (intro exI [of _ ?col]) (simp add: SMA20_add_indicators)
qed

theorem add_indicators_SMA20_witness:
  "(\<exists>col. SMA20 (add_indicators twenty_rows) = Some col \<and> length col = 20 \<and>
          col ! 19 = Some (21 / 2) \<and> col ! 3 = None) \<and>
   (\<exists>col. SMA20 (add_indicators two_rows) = Some col \<and> col = [None, None])"
proof -
  have l20: "length (rows twenty_rows) = 20" by code_simp
  have s20: "(\<Sum>k = (19::nat) - 19..19. Close (rows twenty_rows ! k)) / 20 = 21 / 2"
    by code_simp
  have l2: "length (rows two_rows) = 2" by code_simp
  from add_indicators_SMA20 [of twenty_rows] obtain c where
    c: "SMA20 (add_indicators twenty_rows) = Some c" "length c = length (rows twenty_rows)"
       "\<forall>i < length (rows twenty_rows).
          c ! i = (if 19 \<le> i then Some ((\<Sum>k = i - 19..i. Close (rows twenty_rows ! k)) / 20)
                   else None)"
    by blast
  from c(3) l20 have "c ! 19 = Some ((\<Sum>k = (19::nat) - 19..19. Close (rows twenty_rows ! k)) / 20)"
    by simp
  then have c19: "c ! 19 = Some (21 / 2)" by (simp only: s20)
  from c(3) l20 have c3: "c ! 3 = None" by simp
  from add_indicators_SMA20 [of two_rows] obtain d where
    d: "SMA20 (add_indicators two_rows) = Some d"
       "length (rows two_rows) < 20 \<longrightarrow> d = replicate (length (rows two_rows)) None"
    by blast
  from d(2) l2 have "d = [None, None]" by (simp add: numeral_2_eq_2)
  with d(1) c(1) c(2) l20 c19 c3 show ?thesis by simp
qed

text \<open>
  Claim C2. On a non-empty series the EMA20 column has a value in every row: the first is
  the first Close, and each later one is \<open>2/21\<close> of that row's Close plus \<open>19/21\<close> of
  the EMA20 value of the row before.
\<close>

theorem add_indicators_EMA20:
  assumes "rows df \<noteq> []"
  shows "\<exists>e. EMA20 (add_indicators df) = Some (map Some e) \<and>
           length e = length (rows df) \<and>
           e ! 0 = Close (rows df ! 0) \<and>
           (\<forall>i. 1 \<le> i \<and> i < length (rows df) \<longrightarrow>
                e ! i = 2 / 21 * Close (rows df ! i) + 19 / 21 * e ! (i - 1))"
proof -
  from assms obtain x rest where xs: "close_column df = x # rest"
    by (cases "rows df") (auto simp: close_column_def)
  let ?e = "x # ewm_from (2 / 21) x rest"
  have ema: "EMA20 (add_indicators df) = Some (map Some ?e)"
    by (simp add: EMA20_add_indicators ewm_mean_def xs)
  have len: "length ?e = length (rows df)"
    using length_close_column [of df] by (simp add: xs length_ewm_from)
  have hd: "?e ! 0 = Close (rows df ! 0)"
    using close_column_nth [of 0 df] assms by (simp add: xs)
  have step: "?e ! i = 2 / 21 * Close (rows df ! i) + 19 / 21 * ?e ! (i - 1)"
    if "1 \<le> i \<and> i < length (rows df)" for i
  proof -
    from that obtain j where j: "i = Suc j" by (cases i) auto
    with that len have jl: "j < length rest" by (simp add: length_ewm_from)
    have "rest ! j = Close (rows df ! i)"
      using close_column_nth [of i df] that by (simp add: xs j)
    with ewm_from_step [OF jl, of x "2 / 21"] show ?thesis
      by (simp add: j)
  qed
  show ?thesis
    using ema len hd step by (intro exI [of _ ?e]) blast
qed

theorem add_indicators_EMA20_witness:
  "rows two_rows \<noteq> [] \<and>
   (\<exists>e. EMA20 (add_indicators two_rows) = Some (map Some e) \<and> length e = 2 \<and>
        e ! 0 = 102 \<and> e ! 1 = 2 / 21 * 101 + 19 / 21 * 102)"
proof -
  have ne: "rows two_rows \<noteq> []" by code_simp
  have l2: "length (rows two_rows) = 2" by code_simp
  have c0: "Close (rows two_rows ! 0) = 102" by code_simp
  have c1: "Close (rows two_rows ! 1) = 101" by code_simp
  from add_indicators_EMA20 [OF ne] obtain e where
    e: "EMA20 (add_indicators two_rows) = Some (map Some e)"
       "length e = length (rows two_rows)"
       "e ! 0 = Close (rows two_rows ! 0)"
       "\<forall>i. 1 \<le> i \<and> i < length (rows two_rows) \<longrightarrow>
            e ! i = 2 / 21 * Close (rows two_rows ! i) + 19 / 21 * e ! (i - 1)"
    by blast
  from e(4) l2 have "e ! 1 = 2 / 21 * Close (rows two_rows ! 1) + 19 / 21 * e ! 0"
    by simp
  with e(1,2,3) l2 c0 c1 ne show ?thesis by auto
qed

text \<open>
  Claim C6. The indicator computation is idempotent: applied to a series that it has
  already augmented it yields the same SMA20 and EMA20 columns, because both are computed
  from Close again.
\<close>

theorem add_indicators_idempotent:
  "SMA20 (add_indicators (add_indicators df)) = SMA20 (add_indicators df) \<and>
   EMA20 (add_indicators (add_indicators df)) = EMA20 (add_indicators df)"
  by (simp add: SMA20_add_indicators EMA20_add_indicators close_column_add_indicators)

text \<open>
  Claim C7, as stated, fails. The computation is not free of side effects and does not
  leave its input unmodified: the two column assignments are made on the frame that was
  passed in. A series fetched without indicator columns has both columns after the call.
\<close>

theorem add_indicators_mutates_counterexample:
  "SMA20 two_rows = None \<and> EMA20 two_rows = None \<and>
   SMA20 (add_indicators two_rows) = Some [None, None] \<and>
   EMA20 (add_indicators two_rows) = Some [Some 102, Some (2140 / 21)] \<and>
   add_indicators two_rows \<noteq> two_rows"
proof -
  have a: "SMA20 two_rows = None" "EMA20 two_rows = None"
    by (simp_all add: two_rows_def fetched_def)
  have b: "SMA20 (add_indicators two_rows) = Some [None, None]"
    by code_simp
  have c: "EMA20 (add_indicators two_rows) = Some [Some 102, Some (2140 / 21)]"
    by code_simp
  from a(1) b have "add_indicators two_rows \<noteq> two_rows" by auto
  with a b c show ?thesis by simp
qed

text \<open>
  Claim C7, amended. The indicator computation is deterministic and updates its input in
  place, but only by setting the SMA20 and EMA20 columns: the rows, and with them the
  timestamps, the Open, High, Low, Close and Volume values and the row order, are
  unchanged. The two columns depend only on the Close column: two series with the same
  Close column get the same SMA20 and EMA20.
\<close>

theorem add_indicators_frame:
  "rows (add_indicators df) = rows df \<and>
   (\<exists>s e. add_indicators df = df\<lparr>SMA20 := Some s, EMA20 := Some e\<rparr>) \<and>
   (close_column df = close_column df' \<longrightarrow>
      SMA20 (add_indicators df) = SMA20 (add_indicators df') \<and>
      EMA20 (add_indicators df) = EMA20 (add_indicators df'))"
proof -
  have "add_indicators df =
          df\<lparr>SMA20 := Some (rolling_mean 20 None (close_column df)),
             EMA20 := Some (ewm_mean 20 (close_column df))\<rparr>"
    by (simp add: add_indicators_def Let_def close_column_def)
  then have "\<exists>s e. add_indicators df = df\<lparr>SMA20 := Some s, EMA20 := Some e\<rparr>"
    by blast
  then show ?thesis
    by (simp add: rows_add_indicators SMA20_add_indicators EMA20_add_indicators)
qed

theorem add_indicators_frame_witness:
  "close_column two_rows = close_column two_rows_alt \<and>
   rows two_rows \<noteq> rows two_rows_alt \<and>
   rows (add_indicators two_rows) = rows two_rows \<and>
   SMA20 (add_indicators two_rows) = SMA20 (add_indicators two_rows_alt) \<and>
   EMA20 (add_indicators two_rows) = EMA20 (add_indicators two_rows_alt)"
proof -
  have h: "close_column two_rows = close_column two_rows_alt"
    by (simp add: close_column_def two_rows_def two_rows_alt_def fetched_def mk_row_def)
  have d: "rows two_rows \<noteq> rows two_rows_alt"
    by (simp add: two_rows_def two_rows_alt_def fetched_def mk_row_def)
  from add_indicators_frame [of two_rows two_rows_alt] h d show ?thesis
    by simp
qed

section \<open>Chart: properties\<close>

text \<open>
  Claim C8, as stated, fails. \<open>plot_candlestick\<close> tests only whether a column is present.
  On an augmented series of two rows the SMA20 column is entirely undefined, so the count
  of the specification is 2, yet the chart has three traces and the second one is the
  SMA20 line over undefined values.
\<close>

theorem undefined_overlay_counterexample:
  "SMA20 (add_indicators two_rows) = Some [None, None] \<and>
   spec_trace_count (add_indicators two_rows) = 2 \<and>
   length (traces (plot_candlestick (add_indicators two_rows) ''AAPL'')) = 3 \<and>
   traces (plot_candlestick (add_indicators two_rows) ''AAPL'') ! 1 =
     Scatter [0, 1] [None, None] ''orange'' (3 / 2) ''SMA 20''"
  by code_simp

text \<open>
  Claim C8, amended. The chart has exactly one candlestick trace, followed by one overlay
  line trace for each indicator column that is present, whether or not its values are
  defined (0, 1 or 2 overlays). On an augmented series both columns are present, so the
  chart has three traces; no overlay is omitted for being entirely undefined.
\<close>

theorem plot_candlestick_traces:
  "traces (plot_candlestick df ticker) =
     Candlestick (map ts (rows df)) (map Open (rows df)) (map High (rows df))
       (map Low (rows df)) (map Close (rows df)) ''Price'' #
     (case SMA20 df of
        None \<Rightarrow> []
      | Some y \<Rightarrow> [Scatter (map ts (rows df)) y ''orange'' (3 / 2) ''SMA 20'']) @
     (case EMA20 df of
        None \<Rightarrow> []
      | Some y \<Rightarrow> [Scatter (map ts (rows df)) y ''blue'' (3 / 2) ''EMA 20'']) \<and>
   length (traces (plot_candlestick (add_indicators df) ticker)) = 3"
  by (simp add: plot_candlestick_def Let_def SMA20_add_indicators EMA20_add_indicators
           split: option.splits)

section \<open>The script: lemmas\<close>

lemma iloc_last: "xs \<noteq> [] \<Longrightarrow> iloc xs (- 1) = Inr (last xs)"
  by (simp add: iloc_def last_conv_nth Suc_le_eq)

lemma iloc_prev:
  "iloc xs (- 2) = (if 2 \<le> length xs then Inr (xs ! (length xs - 2)) else Inl IndexError)"
  by (auto simp: iloc_def)

lemma countdown_no_rerun: "Rerun \<notin> set (countdown r)"
  by (induction r rule: countdown.induct) (subst countdown.simps, simp)

lemma countdown_no_fetch: "filter is_fetch (countdown r) = []"
  by (induction r rule: countdown.induct) (subst countdown.simps, simp)

lemma countdown_no_error: "filter is_error (countdown r) = []"
  by (induction r rule: countdown.induct) (subst countdown.simps, simp)

lemma countdown_seconds: "sum_list (map seconds (countdown r)) = nat r"
  by (induction r rule: countdown.induct) (subst countdown.simps, auto)

lemma app_raise:
  assumes "yf (upper t) ''1d'' ''1m'' = Inl e"
  shows "app upper yf t r =
           \<lparr>events = [SetPageConfig ''Stock Dashboard'' ''wide'',
                      Title ''Real-Time Stock Market Dashboard'',
                      Fetch (upper t) ''1d'' ''1m'', Error e],
            frame = None\<rparr>"
  using assms by (simp add: app_def get_stock_data_def)

lemma app_empty:
  assumes "yf (upper t) ''1d'' ''1m'' = Inr df" and "rows df = []"
  shows "app upper yf t r =
           \<lparr>events = [SetPageConfig ''Stock Dashboard'' ''wide'',
                      Title ''Real-Time Stock Market Dashboard'',
                      Fetch (upper t) ''1d'' ''1m'',
                      Warning ''No data available. Try a different ticker or interval.''],
            frame = Some df\<rparr>"
  using assms by (simp add: app_def get_stock_data_def df_empty_def)

lemma close_column_ne: "rows df \<noteq> [] \<Longrightarrow> close_column (add_indicators df) \<noteq> []"
  by (simp add: close_column_def add_indicators_def Let_def)

lemma app_one_row:
  assumes "yf (upper t) ''1d'' ''1m'' = Inr df" and "length (rows df) = 1"
  shows "app upper yf t r =
           \<lparr>events = [SetPageConfig ''Stock Dashboard'' ''wide'',
                      Title ''Real-Time Stock Market Dashboard'',
                      Fetch (upper t) ''1d'' ''1m'', Error IndexError],
            frame = Some (add_indicators df)\<rparr>"
proof -
  from assms(2) have ne: "rows df \<noteq> []" by auto
  have l: "length (close_column (add_indicators df)) = 1"
    using assms(2) by (simp add: close_column_def add_indicators_def Let_def)
  have "iloc (close_column (add_indicators df)) (- 2) = Inl IndexError"
    by (simp add: iloc_prev l)
  moreover have "iloc (close_column (add_indicators df)) (- 1)
                   = Inr (last (close_column (add_indicators df)))"
    by (rule iloc_last [OF close_column_ne [OF ne]])
  ultimately show ?thesis
    using assms(1) ne by (simp add: app_def get_stock_data_def df_empty_def Let_def)
qed

lemma app_render:
  assumes "yf (upper t) ''1d'' ''1m'' = Inr df" and "2 \<le> length (rows df)"
  shows "app upper yf t r =
           \<lparr>events =
              [SetPageConfig ''Stock Dashboard'' ''wide'',
               Title ''Real-Time Stock Market Dashboard'',
               Fetch (upper t) ''1d'' ''1m'',
               Metric ''Latest Price'' (Close (last (rows df)))
                 (Some (Close (last (rows df)) - Close (rows df ! (length (rows df) - 2)),
                        float_mul
                          (float_div
                             (Close (last (rows df)) - Close (rows df ! (length (rows df) - 2)))
                             (Close (rows df ! (length (rows df) - 2))))
                          100)),
               Metric ''Day High'' (High (last (rows df))) None,
               Metric ''Day Low'' (Low (last (rows df))) None,
               PlotlyChart (plot_candlestick (add_indicators df) (upper t)),
               Subheader ''Latest Data'',
               Dataframe (tail (add_indicators df) 5)] @
              countdown r @ [Rerun],
            frame = Some (add_indicators df)\<rparr>"
proof -
  from assms(2) have ne: "rows df \<noteq> []" by auto
  have rows: "rows (add_indicators df) = rows df"
    by (simp add: add_indicators_def Let_def)
  have cc: "close_column (add_indicators df) = map Close (rows df)"
    by (simp add: close_column_def rows)
  have c1: "iloc (close_column (add_indicators df)) (- 1) = Inr (Close (last (rows df)))"
    using ne by (simp add: cc iloc_last last_map)
  have c2: "iloc (close_column (add_indicators df)) (- 2)
              = Inr (Close (rows df ! (length (rows df) - 2)))"
    using assms(2) by (simp add: cc iloc_prev)
  have h: "iloc (map High (rows (add_indicators df))) (- 1) = Inr (High (last (rows df)))"
    using ne by (simp add: rows iloc_last last_map)
  have l: "iloc (map Low (rows (add_indicators df))) (- 1) = Inr (Low (last (rows df)))"
    using ne by (simp add: rows iloc_last last_map)
  show ?thesis
    using assms(1) ne
    by (simp add: app_def get_stock_data_def df_empty_def Let_def c1 c2 h l)
qed

lemma ascii_upper_aapl: "ascii_upper ''aapl'' = ''AAPL''"
  by code_simp

lemma ascii_upper_Nil: "ascii_upper [] = []"
  by (simp add: ascii_upper_def)

section \<open>The script: properties\<close>

text \<open>
  Claim C3. When the fetched series has zero rows the cycle shows the warning and ends
  there: the page holds nothing after the warning, so no metric, chart or table is
  rendered, there is no countdown and no rerun, and the series is left as it was fetched
  (the indicator computation is not applied).
\<close>

theorem empty_series_guard:
  assumes "yf (upper t) ''1d'' ''1m'' = Inr df" and "rows df = []"
  shows "events (app upper yf t r) =
           [SetPageConfig ''Stock Dashboard'' ''wide'',
            Title ''Real-Time Stock Market Dashboard'',
            Fetch (upper t) ''1d'' ''1m'',
            Warning ''No data available. Try a different ticker or interval.''] \<and>
         frame (app upper yf t r) = Some df \<and>
         filter is_rendering (events (app upper yf t r)) = [] \<and>
         delay (app upper yf t r) = 0 \<and> \<not> reruns (app upper yf t r)"
  by (simp add: app_empty [of yf upper t df, OF assms] delay_def reruns_def)

theorem empty_series_guard_witness:
  "events (app ascii_upper (serve (Inr (fetched []))) ''aapl'' 15) =
     [SetPageConfig ''Stock Dashboard'' ''wide'',
      Title ''Real-Time Stock Market Dashboard'',
      Fetch ''AAPL'' ''1d'' ''1m'',
      Warning ''No data available. Try a different ticker or interval.''] \<and>
   frame (app ascii_upper (serve (Inr (fetched []))) ''aapl'' 15) =
     Some \<lparr>rows = [], SMA20 = None, EMA20 = None\<rparr>"
proof -
  have h1: "serve (Inr (fetched [])) (ascii_upper ''aapl'') ''1d'' ''1m'' = Inr (fetched [])"
    by (simp add: serve_def)
  have h2: "rows (fetched []) = []"
    by (simp add: fetched_def)
  from empty_series_guard [of "serve (Inr (fetched []))" ascii_upper "''aapl''" "fetched []" 15, OF h1 h2] show ?thesis
    by (simp add: ascii_upper_aapl fetched_def)
qed

text \<open>
  Claim C4. When the fetched series has exactly one row, reading the previous close at
  position \<open>- 2\<close> raises \<open>IndexError\<close>. Nothing guards it: the exception ends the cycle
  before any metric, chart or table is rendered, and the page shows the error instead.
\<close>

theorem single_row_raises:
  assumes "yf (upper t) ''1d'' ''1m'' = Inr df" and "length (rows df) = 1"
  shows "iloc (close_column (add_indicators df)) (- 2) = Inl IndexError \<and>
         events (app upper yf t r) =
           [SetPageConfig ''Stock Dashboard'' ''wide'',
            Title ''Real-Time Stock Market Dashboard'',
            Fetch (upper t) ''1d'' ''1m'',
            Error IndexError] \<and>
         filter is_rendering (events (app upper yf t r)) = [] \<and>
         delay (app upper yf t r) = 0 \<and> \<not> reruns (app upper yf t r)"
proof -
  have "length (close_column (add_indicators df)) = 1"
    using assms(2) by (simp add: close_column_def add_indicators_def Let_def)
  then have "iloc (close_column (add_indicators df)) (- 2) = Inl IndexError"
    by (simp add: iloc_prev)
  then show ?thesis
    by (simp add: app_one_row [of yf upper t df, OF assms] delay_def reruns_def)
qed

theorem single_row_raises_witness:
  "length (rows one_row) = 1 \<and>
   events (app ascii_upper (serve (Inr one_row)) ''aapl'' 15) =
     [SetPageConfig ''Stock Dashboard'' ''wide'',
      Title ''Real-Time Stock Market Dashboard'',
      Fetch ''AAPL'' ''1d'' ''1m'',
      Error IndexError]"
proof -
  have h1: "serve (Inr one_row) (ascii_upper ''aapl'') ''1d'' ''1m'' = Inr one_row"
    by (simp add: serve_def)
  have h2: "length (rows one_row) = 1"
    by (simp add: one_row_def fetched_def)
  from single_row_raises [of "serve (Inr one_row)" ascii_upper "''aapl''" one_row 15, OF h1 h2] h2 show ?thesis
    by (simp add: ascii_upper_aapl)
qed

text \<open>
  Claim C5, as stated, fails. With a previous close of exactly 0 the division raises
  nothing: on the series with the closes 0 and 5 the run has no error banner, the tile
  of the latest price carries an infinite percent change, all five renderings are made
  and the rerun is requested.
\<close>

theorem zero_prev_close_counterexample:
  "2 \<le> length (rows zero_prev) \<and>
   Close (rows zero_prev ! (length (rows zero_prev) - 2)) = 0 \<and>
   filter is_error (events (app ascii_upper (serve (Inr zero_prev)) ''AAPL'' 5)) = [] \<and>
   events (app ascii_upper (serve (Inr zero_prev)) ''AAPL'' 5) ! 3 =
     Metric ''Latest Price'' 5 (Some (5, PosInf)) \<and>
   length (filter is_rendering (events (app ascii_upper (serve (Inr zero_prev)) ''AAPL'' 5))) = 5 \<and>
   reruns (app ascii_upper (serve (Inr zero_prev)) ''AAPL'' 5)"
  by code_simp

text \<open>
  Claim C5, amended. For every series with at least 2 rows whose previous close is
  exactly 0, the percent change is an unguarded floating-point division by zero that does
  not raise: its value is not finite (an infinity or NaN), and the cycle goes on to render
  the metrics, the chart and the table, to count down and to request the rerun.
\<close>

theorem zero_prev_close_no_raise:
  assumes "yf (upper t) ''1d'' ''1m'' = Inr df" and "2 \<le> length (rows df)"
    and "Close (rows df ! (length (rows df) - 2)) = 0"
  shows "\<exists>pct. \<not> is_finite pct \<and>
           events (app upper yf t r) =
             [SetPageConfig ''Stock Dashboard'' ''wide'',
              Title ''Real-Time Stock Market Dashboard'',
              Fetch (upper t) ''1d'' ''1m'',
              Metric ''Latest Price'' (Close (last (rows df)))
                (Some (Close (last (rows df)), pct)),
              Metric ''Day High'' (High (last (rows df))) None,
              Metric ''Day Low'' (Low (last (rows df))) None,
              PlotlyChart (plot_candlestick (add_indicators df) (upper t)),
              Subheader ''Latest Data'',
              Dataframe (tail (add_indicators df) 5)] @
             countdown r @ [Rerun] \<and>
           filter is_error (events (app upper yf t r)) = []"
proof -
  let ?pct = "float_mul (float_div (Close (last (rows df))) 0) 100"
  have "\<not> is_finite ?pct"
    by (simp add: float_div_def)
  then show ?thesis
    by (intro exI [of _ ?pct])
       (simp add: app_render [of yf upper t df, OF assms(1,2)] assms(3) countdown_no_error)
qed

theorem zero_prev_close_no_raise_witness:
  "\<exists>pct. \<not> is_finite pct \<and>
     events (app ascii_upper (serve (Inr zero_prev)) ''aapl'' 1) =
       [SetPageConfig ''Stock Dashboard'' ''wide'',
        Title ''Real-Time Stock Market Dashboard'',
        Fetch ''AAPL'' ''1d'' ''1m'',
        Metric ''Latest Price'' 5 (Some (5, pct)),
        Metric ''Day High'' 5 None,
        Metric ''Day Low'' 0 None,
        PlotlyChart (plot_candlestick (add_indicators zero_prev) ''AAPL''),
        Subheader ''Latest Data'',
        Dataframe (tail (add_indicators zero_prev) 5),
        Markdown 1, Sleep 1, Rerun]"
proof -
  have h1: "serve (Inr zero_prev) (ascii_upper ''aapl'') ''1d'' ''1m'' = Inr zero_prev"
    by (simp add: serve_def)
  have h2: "2 \<le> length (rows zero_prev)"
    by (simp add: zero_prev_def fetched_def)
  have h3: "Close (rows zero_prev ! (length (rows zero_prev) - 2)) = 0"
    by (simp add: zero_prev_def fetched_def mk_row_def)
  have l: "last (rows zero_prev) = mk_row 1 0 5 0 5"
    by (simp add: zero_prev_def fetched_def)
  have c: "countdown 1 = [Markdown 1, Sleep 1]"
    by (simp add: countdown.simps)
  from zero_prev_close_no_raise [of "serve (Inr zero_prev)" ascii_upper "''aapl''" zero_prev 1, OF h1 h2 h3] show ?thesis
    by (auto simp: ascii_upper_aapl l c mk_row_def)
qed

text \<open>
  Claim C9, as stated, fails. The countdown and the rerun are part of the branch that
  renders the series. A cycle that ends in the empty-data warning or in a provider-error
  banner has no countdown and requests no rerun, while a cycle that renders counts down
  for \<open>refresh_rate\<close> seconds and then requests it.
\<close>

theorem refresh_halts_counterexample:
  "\<not> reruns (app ascii_upper (serve (Inr (fetched []))) ''AAPL'' 15) \<and>
   delay (app ascii_upper (serve (Inr (fetched []))) ''AAPL'' 15) = 0 \<and>
   \<not> reruns (app ascii_upper (serve (Inl (ProviderError ''timeout''))) ''AAPL'' 15) \<and>
   delay (app ascii_upper (serve (Inl (ProviderError ''timeout''))) ''AAPL'' 15) = 0 \<and>
   reruns (app ascii_upper (serve (Inr two_rows)) ''AAPL'' 15) \<and>
   delay (app ascii_upper (serve (Inr two_rows)) ''AAPL'' 15) = 15"
  by code_simp

text \<open>
  Claim C9, amended. A cycle requests the next cycle exactly when the fetch returned a
  series of at least 2 rows, and then after a countdown of \<open>refresh_rate\<close> seconds: the
  run ends with the countdown followed by the rerun request, the rerun is requested once,
  as the last effect, and nothing before the countdown sleeps. A cycle that ends in a
  provider-error banner, in the empty-data warning or in the error of a one-row series
  has no countdown and requests no rerun: the refresh loop stops there.
\<close>

theorem rerun_only_after_rendering:
  "reruns (app upper yf t r) =
     (case yf (upper t) ''1d'' ''1m'' of Inl e \<Rightarrow> False | Inr df \<Rightarrow> 2 \<le> length (rows df)) \<and>
   reruns (app upper yf t r) =
     (\<exists>pre. events (app upper yf t r) = pre @ countdown r @ [Rerun] \<and>
            Rerun \<notin> set pre \<and> sum_list (map seconds pre) = 0) \<and>
   Rerun \<notin> set (countdown r) \<and>
   sum_list (map seconds (countdown r)) = nat r \<and>
   delay (app upper yf t r) = (if reruns (app upper yf t r) then nat r else 0)"
proof -
  let ?ordered = "\<exists>pre. events (app upper yf t r) = pre @ countdown r @ [Rerun] \<and>
                        Rerun \<notin> set pre \<and> sum_list (map seconds pre) = 0"
  have from_order: "?ordered \<Longrightarrow> reruns (app upper yf t r)"
    by (auto simp: reruns_def)
  have main: "reruns (app upper yf t r) =
                (case yf (upper t) ''1d'' ''1m'' of
                   Inl e \<Rightarrow> False | Inr df \<Rightarrow> 2 \<le> length (rows df)) \<and>
              (reruns (app upper yf t r) \<longrightarrow> ?ordered) \<and>
              delay (app upper yf t r) = (if reruns (app upper yf t r) then nat r else 0)"
  proof (cases "yf (upper t) ''1d'' ''1m''")
    case (Inl e)
    then show ?thesis
      by (simp add: app_raise [of yf upper t e] reruns_def delay_def)
  next
    case (Inr df)
    consider "rows df = []" | "length (rows df) = 1" | "2 \<le> length (rows df)"
      by (cases "rows df") (auto simp: Suc_le_eq numeral_2_eq_2)
    then show ?thesis
    proof cases
      case 1
      then show ?thesis
        using Inr by (simp add: app_empty [of yf upper t df] reruns_def delay_def)
    next
      case 2
      then show ?thesis
        using Inr by (simp add: app_one_row [of yf upper t df] reruns_def delay_def)
    next
      case 3
      note ev = app_render [of yf upper t df r, OF Inr 3]
      have "reruns (app upper yf t r)"
        by (simp add: ev reruns_def)
      moreover have "delay (app upper yf t r) = nat r"
        by (simp add: ev delay_def countdown_seconds)
      moreover have ?ordered
        by (subst ev, rule exI [of _ "take 9 (events (app upper yf t r))"])
           (simp add: ev)
      ultimately show ?thesis
        using Inr 3 by simp
    qed
  qed
  from main from_order have "reruns (app upper yf t r) = ?ordered"
    by blast
  with main show ?thesis
    by (simp only: countdown_no_rerun countdown_seconds not_False_eq_True simp_thms)
qed

theorem rerun_only_after_rendering_witness:
  "reruns (app ascii_upper (serve (Inr two_rows)) ''aapl'' 2) \<and>
   (\<exists>pre. events (app ascii_upper (serve (Inr two_rows)) ''aapl'' 2) =
            pre @ [Markdown 2, Sleep 1, Markdown 1, Sleep 1] @ [Rerun] \<and>
          Rerun \<notin> set pre \<and> sum_list (map seconds pre) = 0) \<and>
   delay (app ascii_upper (serve (Inr two_rows)) ''aapl'' 2) = 2"
proof -
  have c: "countdown 2 = [Markdown 2, Sleep 1, Markdown 1, Sleep 1]"
    by (simp add: countdown.simps)
  have f: "(case serve (Inr two_rows) (ascii_upper ''aapl'') ''1d'' ''1m'' of
              Inl e \<Rightarrow> False | Inr df \<Rightarrow> 2 \<le> length (rows df))"
    by (simp add: serve_def two_rows_def fetched_def)
  note th = rerun_only_after_rendering [of ascii_upper "serve (Inr two_rows)" "''aapl''" 2]
  from th f have r: "reruns (app ascii_upper (serve (Inr two_rows)) ''aapl'' 2)"
    by simp
  with th have "\<exists>pre. events (app ascii_upper (serve (Inr two_rows)) ''aapl'' 2) =
                        pre @ countdown 2 @ [Rerun] \<and>
                      Rerun \<notin> set pre \<and> sum_list (map seconds pre) = 0"
    by blast
  moreover from th r have "delay (app ascii_upper (serve (Inr two_rows)) ''aapl'' 2) = 2"
    by simp
  ultimately show ?thesis
    using r unfolding c by blast
qed

text \<open>
  Claim C10. The ticker is never validated, only upper-cased: for every input text, the
  empty one included, and whatever \<open>str.upper()\<close> makes of it, the run makes exactly one
  request to the provider, for the upper-cased text with period \<open>1d\<close> and interval
  \<open>1m\<close>. What the provider does with an empty or malformed symbol is all that follows:
  an exception becomes the error banner, a series without rows becomes the warning.
\<close>

theorem ticker_only_upper_cased:
  "filter is_fetch (events (app upper yf t r)) = [Fetch (upper t) ''1d'' ''1m''] \<and>
   (yf (upper t) ''1d'' ''1m'' = Inl e \<longrightarrow>
      events (app upper yf t r) =
        [SetPageConfig ''Stock Dashboard'' ''wide'',
         Title ''Real-Time Stock Market Dashboard'',
         Fetch (upper t) ''1d'' ''1m'',
         Error e]) \<and>
   (yf (upper t) ''1d'' ''1m'' = Inr df \<and> rows df = [] \<longrightarrow>
      events (app upper yf t r) =
        [SetPageConfig ''Stock Dashboard'' ''wide'',
         Title ''Real-Time Stock Market Dashboard'',
         Fetch (upper t) ''1d'' ''1m'',
         Warning ''No data available. Try a different ticker or interval.''])"
proof -
  have fetch: "filter is_fetch (events (app upper yf t r)) = [Fetch (upper t) ''1d'' ''1m'']"
  proof (cases "yf (upper t) ''1d'' ''1m''")
    case (Inl e')
    then show ?thesis by (simp add: app_raise [of yf upper t e'])
  next
    case (Inr d)
    consider "rows d = []" | "length (rows d) = 1" | "2 \<le> length (rows d)"
      by (cases "rows d") (auto simp: Suc_le_eq numeral_2_eq_2)
    then show ?thesis
    proof cases
      case 1
      then show ?thesis using Inr by (simp add: app_empty [of yf upper t d])
    next
      case 2
      then show ?thesis using Inr by (simp add: app_one_row [of yf upper t d])
    next
      case 3
      then show ?thesis
        using Inr by (simp add: app_render [of yf upper t d] countdown_no_fetch)
    qed
  qed
  show ?thesis
    using fetch app_raise [of yf upper t e r] app_empty [of yf upper t df r] by simp
qed

theorem ticker_only_upper_cased_witness:
  "events (app ascii_upper sample_yf '''' 15) =
     [SetPageConfig ''Stock Dashboard'' ''wide'',
      Title ''Real-Time Stock Market Dashboard'',
      Fetch '''' ''1d'' ''1m'',
      Warning ''No data available. Try a different ticker or interval.''] \<and>
   events (app ascii_upper sample_yf ''a b!'' 15) =
     [SetPageConfig ''Stock Dashboard'' ''wide'',
      Title ''Real-Time Stock Market Dashboard'',
      Fetch ''A B!'' ''1d'' ''1m'',
      Error (ProviderError ''No data found, symbol may be delisted'')]"
proof -
  have u: "ascii_upper ''a b!'' = ''A B!''" by code_simp
  have h1: "sample_yf (ascii_upper '''') ''1d'' ''1m'' = Inr (fetched []) \<and> rows (fetched []) = []"
    by (simp add: ascii_upper_Nil sample_yf_def fetched_def)
  have h2: "sample_yf (ascii_upper ''a b!'') ''1d'' ''1m'' =
              Inl (ProviderError ''No data found, symbol may be delisted'')"
    by (simp add: u sample_yf_def)
  from ticker_only_upper_cased [of ascii_upper sample_yf "''''" 15 "ProviderError ''x''" "fetched []"] h1
  have a: "events (app ascii_upper sample_yf '''' 15) =
     [SetPageConfig ''Stock Dashboard'' ''wide'',
      Title ''Real-Time Stock Market Dashboard'',
      Fetch '''' ''1d'' ''1m'',
      Warning ''No data available. Try a different ticker or interval.'']"
    by (simp add: ascii_upper_Nil)
  from ticker_only_upper_cased [of ascii_upper sample_yf "''a b!''" 15
         "ProviderError ''No data found, symbol may be delisted''" "fetched []"] h2
  have b: "events (app ascii_upper sample_yf ''a b!'' 15) =
     [SetPageConfig ''Stock Dashboard'' ''wide'',
      Title ''Real-Time Stock Market Dashboard'',
      Fetch ''A B!'' ''1d'' ''1m'',
      Error (ProviderError ''No data found, symbol may be delisted'')]"
    by (simp add: u)
  from a b show ?thesis by simp
qed

end
